theory Spec2Isabelle
  imports Main
begin

section \<open>The debug-relay bridge of \<^verbatim>\<open>debug-server.go\<close>\<close>

text \<open>
  The development embeds the function \<^verbatim>\<open>debug\<close> of \<^verbatim>\<open>debug-server.go\<close>:
  the region table, the two wire envelopes, the construction of the relay URL, and
  the read/dispatch/write loop with its three ways of ending (\<^verbatim>\<open>log.Fatal\<close>, a
  run-time panic, or staying blocked in the next read).

  What is outside the file is a parameter of the model:
  \<^item> the handler (\<^verbatim>\<open>handlerFunc\<close>), a function from the decoded request pointer to
    the pair \<^verbatim>\<open>(*ResponseEnvelope, error)\<close> that Go returns;
  \<^item> the JSON decoding and encoding of the types \<^verbatim>\<open>RequestEnvelope\<close> and
    \<^verbatim>\<open>ResponseEnvelope\<close>, which other files of the package declare;
  \<^item> the transport: what \<^verbatim>\<open>websocket.Dial\<close>, \<^verbatim>\<open>wsjson.Read\<close> and
    \<^verbatim>\<open>wsjson.Write\<close> return, given as a script.
  The calls to \<^verbatim>\<open>log.Print\<close> only write to the log and are left out; a handler is
  taken to return (a panicking handler is not modelled).
\<close>

subsection \<open>Data\<close>

text \<open>A Go \<^verbatim>\<open>error\<close> value is represented by its message; \<^verbatim>\<open>nil\<close> is \<open>None\<close>.\<close>

type_synonym error = string

text \<open>\<^verbatim>\<open>type skillRequest struct\<close> (lines 46--51).\<close>

record skillRequest =
  reqVersion :: string
  reqType :: string
  RequestID :: string
  RequestPayload :: string

text \<open>\<^verbatim>\<open>type skillResponseType string\<close> and its two constants (lines 53--58).\<close>

type_synonym skillResponseType = string

definition skillResponseTypeSuccess :: skillResponseType where
  "skillResponseTypeSuccess = ''SkillResponseSuccessMessage''"

definition skillResponseTypeFailure :: skillResponseType where
  "skillResponseTypeFailure = ''SkillResponseFailureMessage''"

text \<open>\<^verbatim>\<open>type skillResponse struct\<close> (lines 60--65).\<close>

record skillResponse =
  respVersion :: string
  respType :: skillResponseType
  OriginalRequestID :: string
  ResponsePayload :: string

subsection \<open>The region table\<close>

text \<open>
  \<^verbatim>\<open>var regionEndpoints = map[string]string{...}\<close> (lines 40--44). Indexing a Go map
  with a key it does not hold yields the zero value of the element type, here the
  empty string; \<open>index\<close> is that read.
\<close>

definition regionEndpoints :: "string \<rightharpoonup> string" where
  "regionEndpoints = map_of
     [(''NA'', ''bob-dispatch-prod-na.amazon.com''),
      (''FE'', ''bob-dispatch-prod-fe.amazon.com''),
      (''EU'', ''bob-dispatch-prod-eu.amazon.com'')]"

definition index :: "(string \<rightharpoonup> string) \<Rightarrow> string \<Rightarrow> string" where
  "index m k = (case m k of None \<Rightarrow> [] | Some v \<Rightarrow> v)"

subsection \<open>The relay URL\<close>

text \<open>
  \<^verbatim>\<open>fmt.Sprintf\<close> on string operands, for the one verb the source's format uses:
  \<^verbatim>\<open>%s\<close> is replaced by the next operand unchanged, and by \<^verbatim>\<open>%!s(MISSING)\<close> when
  the operands have run out; every other character is copied.
\<close>

fun Sprintf :: "string \<Rightarrow> string list \<Rightarrow> string" where
  "Sprintf [] args = []"
| "Sprintf [c] args = [c]"
| "Sprintf (c # d # fs) args =
     (if c = CHR ''%'' \<and> d = CHR ''s''
      then (case args of
              [] \<Rightarrow> ''%!s(MISSING)'' @ Sprintf fs []
            | a # as \<Rightarrow> a @ Sprintf fs as)
      else c # Sprintf (d # fs) args)"

text \<open>Lines 73--77.\<close>

definition debugEndpointURL :: "string \<Rightarrow> string \<Rightarrow> string" where
  "debugEndpointURL region skillId =
     Sprintf ''wss://%s/v1/skills/%s/stages/development/connectCustomDebugEndpoint''
       [index regionEndpoints region, skillId]"

subsection \<open>JSON at a pointer\<close>

text \<open>
  \<^verbatim>\<open>json.Unmarshal(data, &p)\<close> for a pointer variable \<^verbatim>\<open>p\<close> of type \<^verbatim>\<open>*T\<close>, as
  \<^verbatim>\<open>encoding/json\<close> documents it: input that is empty up to white space is an error
  (``unexpected end of JSON input''); the literal \<^verbatim>\<open>null\<close> sets the pointer to
  \<^verbatim>\<open>nil\<close> and is no error; anything else is decoded into a fresh \<^verbatim>\<open>T\<close> by the
  decoder of \<^verbatim>\<open>T\<close>, the parameter \<open>dec\<close>, whose error is returned as it is.
\<close>

definition json_space :: "char \<Rightarrow> bool" where
  "json_space c = (c = CHR '' '' \<or> c = CHR 0x09 \<or> c = CHR 0x0A \<or> c = CHR 0x0D)"

definition json_trim :: "string \<Rightarrow> string" where
  "json_trim s = rev (dropWhile json_space (rev (dropWhile json_space s)))"

definition json_Unmarshal :: "(string \<Rightarrow> error + 'a) \<Rightarrow> string \<Rightarrow> error + 'a option" where
  "json_Unmarshal dec data =
     (let t = json_trim data in
      if t = [] then Inl ''unexpected end of JSON input''
      else if t = ''null'' then Inr None
      else (case dec data of Inl err \<Rightarrow> Inl err | Inr v \<Rightarrow> Inr (Some v)))"

text \<open>
  \<^verbatim>\<open>json.Marshal(p)\<close> for a pointer \<^verbatim>\<open>p\<close> of type \<^verbatim>\<open>*T\<close>: a \<^verbatim>\<open>nil\<close> pointer is
  encoded as \<^verbatim>\<open>null\<close>, anything else by the encoder of \<^verbatim>\<open>T\<close>, the parameter
  \<open>enc\<close>.
\<close>

definition json_Marshal :: "('a \<Rightarrow> error + string) \<Rightarrow> 'a option \<Rightarrow> error + string" where
  "json_Marshal enc p = (case p of None \<Rightarrow> Inr ''null'' | Some v \<Rightarrow> enc v)"

subsection \<open>The session\<close>

text \<open>
  What the session does to the outside, in program order: the handler is called
  with a request pointer, a response frame is handed to \<^verbatim>\<open>wsjson.Write\<close>, the
  deferred \<^verbatim>\<open>c.Close(websocket.StatusNormalClosure, "bye")\<close> runs, the deferred
  \<^verbatim>\<open>cancel()\<close> runs.
\<close>

datatype 'q event =
    Handled "'q option"
  | Wrote skillResponse
  | Closed
  | Cancelled

text \<open>
  How a run over a script ends. \<^verbatim>\<open>log.Fatal\<close> prints its operands and calls
  \<^verbatim>\<open>os.Exit(1)\<close>: the process ends at once and deferred calls do not run. A
  run-time panic unwinds the stack and runs the deferred calls. \<open>Waiting\<close> is the
  loop blocked in \<^verbatim>\<open>wsjson.Read\<close> when the script has no further frame.
\<close>

datatype status =
    OsExit string
  | Panicked
  | Waiting

type_synonym ('q, 'r) handlerFunc = "'q option \<Rightarrow> 'r option \<times> error option"

text \<open>
  Lines 117--135: the response starts as a Success frame that echoes the request's
  version and id, with the zero value as its payload; a handler error or a
  marshalling error changes the type to Failure, and only a marshalled result
  sets the payload.
\<close>

definition respond ::
  "('q, 'r) handlerFunc \<Rightarrow> ('r \<Rightarrow> error + string) \<Rightarrow> skillRequest \<Rightarrow> 'q option \<Rightarrow> skillResponse"
where
  "respond handler enc req reqEnv =
     (let resp = \<lparr>respVersion = reqVersion req,
                  respType = skillResponseTypeSuccess,
                  OriginalRequestID = RequestID req,
                  ResponsePayload = []\<rparr>
      in case handler reqEnv of
           (r, Some err) \<Rightarrow> resp\<lparr>respType := skillResponseTypeFailure\<rparr>
         | (r, None) \<Rightarrow>
             (case json_Marshal enc r of
                Inl err \<Rightarrow> resp\<lparr>respType := skillResponseTypeFailure\<rparr>
              | Inr rb \<Rightarrow> resp\<lparr>ResponsePayload := rb\<rparr>))"

text \<open>
  One pass through the body of the loop (lines 100--141). \<open>rd\<close> is what
  \<^verbatim>\<open>wsjson.Read(ctx, c, &req)\<close> gives: an error, or the decoded frame pointer
  (\<^verbatim>\<open>req\<close> has type \<^verbatim>\<open>*skillRequest\<close>, so a frame that is the JSON literal
  \<^verbatim>\<open>null\<close> leaves it \<^verbatim>\<open>nil\<close>, and \<^verbatim>\<open>req.RequestPayload\<close> then panics).
  \<open>wr\<close> is the error of \<^verbatim>\<open>wsjson.Write\<close>, read only when the pass gets there.
  The result is the events of the pass and how it stops, \<open>None\<close> when the loop
  goes round again.
\<close>

definition iteration ::
  "(string \<Rightarrow> error + 'q) \<Rightarrow> ('q, 'r) handlerFunc \<Rightarrow> ('r \<Rightarrow> error + string) \<Rightarrow>
   error + skillRequest option \<Rightarrow> error option \<Rightarrow> 'q event list \<times> status option"
where
  "iteration dec handler enc rd wr =
     (case rd of
        Inl err \<Rightarrow> ([], Some (OsExit (''Failed to read message: '' @ err)))
      | Inr None \<Rightarrow> ([], Some Panicked)
      | Inr (Some req) \<Rightarrow>
          (case json_Unmarshal dec (RequestPayload req) of
             Inl err \<Rightarrow> ([], Some (OsExit (''Failed to unmarshal request payload: '' @ err)))
           | Inr reqEnv \<Rightarrow>
               ([Handled reqEnv, Wrote (respond handler enc req reqEnv)],
                (case wr of
                   Some err \<Rightarrow> Some (OsExit (''Failed to write response: '' @ err))
                 | None \<Rightarrow> None))))"

text \<open>
  The loop \<^verbatim>\<open>for { ... }\<close> over a script: one entry per pass, the result of the
  read and the result of the write. The loop has no \<^verbatim>\<open>break\<close> and no
  \<^verbatim>\<open>return\<close>.
\<close>

type_synonym script = "((error + skillRequest option) \<times> error option) list"

fun loop ::
  "(string \<Rightarrow> error + 'q) \<Rightarrow> ('q, 'r) handlerFunc \<Rightarrow> ('r \<Rightarrow> error + string) \<Rightarrow>
   script \<Rightarrow> 'q event list \<times> status"
where
  "loop dec handler enc [] = ([], Waiting)"
| "loop dec handler enc ((rd, wr) # rest) =
     (case iteration dec handler enc rd wr of
        (evs, Some st) \<Rightarrow> (evs, st)
      | (evs, None) \<Rightarrow>
          (case loop dec handler enc rest of (evs', st) \<Rightarrow> (evs @ evs', st)))"

text \<open>The transport's side of a session: the error of \<^verbatim>\<open>websocket.Dial\<close> and the script.\<close>

record transport =
  dialError :: "error option"
  frames :: script

text \<open>
  What a session leaves behind: the URL and the headers given to
  \<^verbatim>\<open>websocket.Dial\<close>, the events, and how it ended.
\<close>

record 'q session =
  dialedURL :: string
  dialedHeaders :: "(string \<times> string list) list"
  trace :: "'q event list"
  ending :: status

text \<open>
  \<^verbatim>\<open>func debug(accessToken, skillId, region string, handler handlerFunc)\<close>
  (lines 67--143). The deferred calls are \<^verbatim>\<open>cancel()\<close> (line 69) and, once the
  dial has succeeded, \<^verbatim>\<open>c.Close(...)\<close> (line 94); they run last-in first-out, and
  only when the function unwinds, which in this function is the panic alone.
\<close>

definition debug ::
  "string \<Rightarrow> string \<Rightarrow> string \<Rightarrow> ('q, 'r) handlerFunc \<Rightarrow>
   (string \<Rightarrow> error + 'q) \<Rightarrow> ('r \<Rightarrow> error + string) \<Rightarrow> transport \<Rightarrow> 'q session"
where
  "debug accessToken skillId region handler dec enc tr =
     (let url = debugEndpointURL region skillId;
          headers = [(''authorization'', [accessToken])]
      in case dialError tr of
           Some err \<Rightarrow>
             \<lparr>dialedURL = url, dialedHeaders = headers, trace = [],
              ending = OsExit (''Failed to connect to debug endpoint:'' @ err)\<rparr>
         | None \<Rightarrow>
             (case loop dec handler enc (frames tr) of
                (evs, st) \<Rightarrow>
                  \<lparr>dialedURL = url, dialedHeaders = headers,
                   trace = evs @ (if st = Panicked then [Closed, Cancelled] else []),
                   ending = st\<rparr>))"

text \<open>The number of times the transport handle was closed by the session.\<close>

definition closes :: "'q event list \<Rightarrow> nat" where
  "closes evs = length (filter (\<lambda>e. e = Closed) evs)"

text \<open>The response frames handed to the transport, in order.\<close>

fun written :: "'q event list \<Rightarrow> skillResponse list" where
  "written [] = []"
| "written (Wrote resp # evs) = resp # written evs"
| "written (e # evs) = written evs"

subsection \<open>Vocabulary of the statements\<close>

text \<open>Two inbound frames that agree on every field but \<^verbatim>\<open>Type\<close>.\<close>

definition only_type_differs :: "skillRequest \<Rightarrow> skillRequest \<Rightarrow> bool" where
  "only_type_differs a b =
     (reqVersion a = reqVersion b \<and> RequestID a = RequestID b \<and> RequestPayload a = RequestPayload b)"

subsection \<open>A small instance\<close>

text \<open>
  A concrete handler and codec on which the model is evaluated: the request is
  a JSON boolean, the response is a boolean or a value that \<^verbatim>\<open>json.Marshal\<close>
  rejects (as it rejects a channel or a NaN). The handler fails on a \<^verbatim>\<open>nil\<close>
  request, answers \<^verbatim>\<open>true\<close> with \<^verbatim>\<open>false\<close>, and answers \<^verbatim>\<open>false\<close> with
  the value that cannot be marshalled.
\<close>

datatype demoResponse = Flag bool | Unsupported

definition demoDecode :: "string \<Rightarrow> error + bool" where
  "demoDecode data =
     (if json_trim data = ''true'' then Inr True
      else if json_trim data = ''false'' then Inr False
      else Inl ''json: cannot unmarshal into Go value of type bool'')"

fun demoEncode :: "demoResponse \<Rightarrow> error + string" where
  "demoEncode (Flag b) = Inr (if b then ''true'' else ''false'')"
| "demoEncode Unsupported = Inl ''json: unsupported value''"

fun demoHandler :: "(bool, demoResponse) handlerFunc" where
  "demoHandler None = (None, Some ''no request'')"
| "demoHandler (Some True) = (Some (Flag False), None)"
| "demoHandler (Some False) = (Some Unsupported, None)"

text \<open>A second handler, which accepts a \<^verbatim>\<open>nil\<close> request and answers it with \<^verbatim>\<open>true\<close>.\<close>

fun demoNilHandler :: "(bool, demoResponse) handlerFunc" where
  "demoNilHandler None = (Some (Flag True), None)"
| "demoNilHandler (Some b) = (Some (Flag b), None)"

definition demoFrame :: "string \<Rightarrow> skillRequest" where
  "demoFrame payload =
     \<lparr>reqVersion = ''1.0'', reqType = ''req'', RequestID = ''abc'', RequestPayload = payload\<rparr>"

section \<open>Properties\<close>

subsection \<open>Auxiliary facts\<close>

lemma types_differ: "skillResponseTypeSuccess \<noteq> skillResponseTypeFailure"
  by (simp add: skillResponseTypeSuccess_def skillResponseTypeFailure_def)

lemma respond_echo:
  "respVersion (respond handler enc req reqEnv) = reqVersion req"
  "OriginalRequestID (respond handler enc req reqEnv) = RequestID req"
  by (simp_all add: respond_def Let_def split: prod.splits option.splits sum.splits)

lemma respond_handler_error:
  "handler reqEnv = (r, Some err) \<Longrightarrow>
   respond handler enc req reqEnv =
     \<lparr>respVersion = reqVersion req, respType = skillResponseTypeFailure,
      OriginalRequestID = RequestID req, ResponsePayload = []\<rparr>"
  by (simp add: respond_def Let_def)

lemma respond_marshal_error:
  "handler reqEnv = (r, None) \<Longrightarrow> json_Marshal enc r = Inl err \<Longrightarrow>
   respond handler enc req reqEnv =
     \<lparr>respVersion = reqVersion req, respType = skillResponseTypeFailure,
      OriginalRequestID = RequestID req, ResponsePayload = []\<rparr>"
  by (simp add: respond_def Let_def)

lemma respond_success:
  "handler reqEnv = (r, None) \<Longrightarrow> json_Marshal enc r = Inr rb \<Longrightarrow>
   respond handler enc req reqEnv =
     \<lparr>respVersion = reqVersion req, respType = skillResponseTypeSuccess,
      OriginalRequestID = RequestID req, ResponsePayload = rb\<rparr>"
  by (simp add: respond_def Let_def)

lemma iteration_decoded:
  "json_Unmarshal dec (RequestPayload req) = Inr reqEnv \<Longrightarrow>
   iteration dec handler enc (Inr (Some req)) wr =
     ([Handled reqEnv, Wrote (respond handler enc req reqEnv)],
      case wr of Some err \<Rightarrow> Some (OsExit (''Failed to write response: '' @ err)) | None \<Rightarrow> None)"
  by (simp add: iteration_def)

lemma iteration_undecoded:
  "json_Unmarshal dec (RequestPayload req) = Inl err \<Longrightarrow>
   iteration dec handler enc (Inr (Some req)) wr =
     ([], Some (OsExit (''Failed to unmarshal request payload: '' @ err)))"
  by (simp add: iteration_def)

lemma iteration_read_error:
  "iteration dec handler enc (Inl err) wr = ([], Some (OsExit (''Failed to read message: '' @ err)))"
  by (simp add: iteration_def)

lemma loop_stops:
  "iteration dec handler enc rd wr = (evs, Some st) \<Longrightarrow>
   loop dec handler enc ((rd, wr) # rest) = (evs, st)"
  by simp

lemma loop_goes_on:
  "iteration dec handler enc rd wr = (evs, None) \<Longrightarrow>
   loop dec handler enc ((rd, wr) # rest) =
     (evs @ fst (loop dec handler enc rest), snd (loop dec handler enc rest))"
  by (simp split: prod.splits)

lemma loop_append:
  "snd (loop dec handler enc pre) = Waiting \<Longrightarrow>
   loop dec handler enc (pre @ rest) =
     (fst (loop dec handler enc pre) @ fst (loop dec handler enc rest),
      snd (loop dec handler enc rest))"
proof (induction pre)
  case Nil
  then show ?case by simp
next
  case (Cons p pre)
  obtain rd wr where p: "p = (rd, wr)" by (cases p)
  obtain evs c where it: "iteration dec handler enc rd wr = (evs, c)"
    by (cases "iteration dec handler enc rd wr")
  show ?case
  proof (cases c)
    case None
    with Cons p it show ?thesis by (simp split: prod.splits)
  next
    case (Some st)
    with Cons.prems p it have "st = Waiting" by simp
    with Some it have False by (auto simp: iteration_def split: sum.splits option.splits)
    then show ?thesis ..
  qed
qed

lemma json_Unmarshal_null: "json_Unmarshal dec ''null'' = Inr None"
  by (simp add: json_Unmarshal_def json_trim_def json_space_def)

lemma json_Unmarshal_empty: "json_Unmarshal dec [] = Inl ''unexpected end of JSON input''"
  by (simp add: json_Unmarshal_def json_trim_def)

lemma demoDecode_true: "json_Unmarshal demoDecode ''true'' = Inr (Some True)"
  by (simp add: json_Unmarshal_def json_trim_def json_space_def demoDecode_def)

lemma demoDecode_false: "json_Unmarshal demoDecode ''false'' = Inr (Some False)"
  by (simp add: json_Unmarshal_def json_trim_def json_space_def demoDecode_def)

lemma respond_retype:
  "only_type_differs a b \<Longrightarrow> respond handler enc a reqEnv = respond handler enc b reqEnv"
  by (simp add: only_type_differs_def respond_def)

lemma iteration_retype:
  assumes "only_type_differs a b"
  shows "iteration dec handler enc (Inr (Some a)) wr = iteration dec handler enc (Inr (Some b)) wr"
proof -
  from assms have payload: "RequestPayload a = RequestPayload b"
    by (simp add: only_type_differs_def)
  have resp: "respond handler enc a q = respond handler enc b q" for q
    using assms by (rule respond_retype)
  show ?thesis
    by (simp add: iteration_def payload resp split: sum.splits)
qed

lemma loop_retype:
  "list_all2 (rel_prod (rel_sum (=) (rel_option only_type_differs)) (=)) s1 s2 \<Longrightarrow>
   loop dec handler enc s1 = loop dec handler enc s2"
proof (induction s1 s2 rule: list_all2_induct)
  case Nil
  then show ?case by simp
next
  case (Cons x xs y ys)
  obtain rd wr where x: "x = (rd, wr)" by (cases x)
  obtain rd' wr' where y: "y = (rd', wr')" by (cases y)
  from Cons.hyps(1) x y have wr: "wr = wr'" and rd: "rel_sum (=) (rel_option only_type_differs) rd rd'"
    by simp_all
  have "iteration dec handler enc rd wr = iteration dec handler enc rd' wr"
  proof (cases rd)
    case (Inl e)
    with rd show ?thesis by (cases rd') simp_all
  next
    case (Inr p)
    with rd obtain p' where rd': "rd' = Inr p'" and pp: "rel_option only_type_differs p p'"
      by (cases rd') simp_all
    from pp Inr rd' show ?thesis
      by (cases p; cases p') (simp_all add: iteration_retype)
  qed
  with Cons.IH x y wr show ?case by simp
qed

subsection \<open>The response frame\<close>

text \<open>
  Claim C1. A frame whose inner payload was decoded is answered by exactly one
  outbound frame; its \<^verbatim>\<open>originalRequestId\<close> is the inbound \<^verbatim>\<open>requestId\<close> and its
  \<^verbatim>\<open>version\<close> is the inbound \<^verbatim>\<open>version\<close>, whatever the handler and the encoder do,
  that is, for a Success frame and for a Failure frame alike.
\<close>

theorem outbound_echoes_inbound:
  assumes "json_Unmarshal dec (RequestPayload req) = Inr reqEnv"
  shows "\<exists>resp. written (fst (iteration dec handler enc (Inr (Some req)) wr)) = [resp] \<and>
           OriginalRequestID resp = RequestID req \<and>
           respVersion resp = reqVersion req \<and>
           (respType resp = skillResponseTypeSuccess \<or> respType resp = skillResponseTypeFailure)"
proof -
  let ?resp = "respond handler enc req reqEnv"
  have "written (fst (iteration dec handler enc (Inr (Some req)) wr)) = [?resp]"
    by (simp add: iteration_decoded [OF assms])
  moreover have "respType ?resp = skillResponseTypeSuccess \<or> respType ?resp = skillResponseTypeFailure"
    by (simp add: respond_def Let_def split: prod.splits option.splits sum.splits)
  ultimately show ?thesis
    by (simp add: respond_echo)
qed

text \<open>The same on the frame \<open>demoFrame ''true''\<close>.\<close>

theorem outbound_echoes_inbound_witness:
  "json_Unmarshal demoDecode (RequestPayload (demoFrame ''true'')) = Inr (Some True) \<and>
   (\<exists>resp. written (fst (iteration demoDecode demoHandler demoEncode
                (Inr (Some (demoFrame ''true''))) None)) = [resp] \<and>
      OriginalRequestID resp = ''abc'' \<and> respVersion resp = ''1.0'' \<and>
      (respType resp = skillResponseTypeSuccess \<or> respType resp = skillResponseTypeFailure))"
proof -
  have d: "json_Unmarshal demoDecode (RequestPayload (demoFrame ''true'')) = Inr (Some True)"
    by (simp add: demoFrame_def demoDecode_true)
  show ?thesis
    using d outbound_echoes_inbound [OF d, of demoHandler demoEncode None]
    by (simp add: demoFrame_def)
qed

text \<open>
  Claim C2. For a frame whose inner payload was decoded: when the handler returns
  an error, or returns none and \<^verbatim>\<open>json.Marshal\<close> of its result fails, the frame
  handed to \<^verbatim>\<open>wsjson.Write\<close> has type \<^verbatim>\<open>SkillResponseFailureMessage\<close> and an empty
  payload; the pass reaches the write, stops only if the write itself fails, and
  after a successful write the loop reads the next frame.
\<close>

theorem handler_or_marshal_error_gives_failure_frame:
  assumes decoded: "json_Unmarshal dec (RequestPayload req) = Inr reqEnv"
      and failed: "snd (handler reqEnv) \<noteq> None \<or>
                   (snd (handler reqEnv) = None \<and>
                    (\<exists>err. json_Marshal enc (fst (handler reqEnv)) = Inl err))"
  shows "\<exists>resp. respType resp = skillResponseTypeFailure \<and> ResponsePayload resp = [] \<and>
           iteration dec handler enc (Inr (Some req)) wr =
             ([Handled reqEnv, Wrote resp],
              case wr of Some err \<Rightarrow> Some (OsExit (''Failed to write response: '' @ err))
                       | None \<Rightarrow> None) \<and>
           loop dec handler enc ((Inr (Some req), None) # rest) =
             (Handled reqEnv # Wrote resp # fst (loop dec handler enc rest),
              snd (loop dec handler enc rest))"
proof -
  let ?fail = "\<lparr>respVersion = reqVersion req, respType = skillResponseTypeFailure,
               OriginalRequestID = RequestID req, ResponsePayload = []\<rparr>"
  obtain r e where h: "handler reqEnv = (r, e)" by (cases "handler reqEnv")
  have resp: "respond handler enc req reqEnv = ?fail"
  proof (cases e)
    case (Some err)
    with h show ?thesis by (simp add: respond_handler_error)
  next
    case None
    with h failed obtain err where "json_Marshal enc r = Inl err" by auto
    with h None show ?thesis by (simp add: respond_marshal_error)
  qed
  have it: "iteration dec handler enc (Inr (Some req)) wr =
      ([Handled reqEnv, Wrote ?fail],
       case wr of Some err \<Rightarrow> Some (OsExit (''Failed to write response: '' @ err))
                | None \<Rightarrow> None)" for wr
    by (simp add: iteration_decoded [OF decoded] resp)
  have "loop dec handler enc ((Inr (Some req), None) # rest) =
      (Handled reqEnv # Wrote ?fail # fst (loop dec handler enc rest),
       snd (loop dec handler enc rest))"
    by (simp add: it split: prod.splits)
  with it show ?thesis by (intro exI [of _ ?fail]) simp
qed

text \<open>
  On \<open>demoFrame ''false''\<close> the handler returns a value that cannot be marshalled;
  the Failure frame is written and the next read (which fails here) takes place.
\<close>

theorem handler_or_marshal_error_gives_failure_frame_witness:
  "json_Unmarshal demoDecode (RequestPayload (demoFrame ''false'')) = Inr (Some False) \<and>
   snd (demoHandler (Some False)) = None \<and>
   json_Marshal demoEncode (fst (demoHandler (Some False))) = Inl ''json: unsupported value'' \<and>
   (\<exists>resp. respType resp = skillResponseTypeFailure \<and> ResponsePayload resp = [] \<and>
      iteration demoDecode demoHandler demoEncode (Inr (Some (demoFrame ''false''))) None =
        ([Handled (Some False), Wrote resp], None) \<and>
      loop demoDecode demoHandler demoEncode
        [(Inr (Some (demoFrame ''false'')), None), (Inl ''EOF'', None)] =
        ([Handled (Some False), Wrote resp], OsExit ''Failed to read message: EOF''))"
proof -
  have d: "json_Unmarshal demoDecode (RequestPayload (demoFrame ''false'')) = Inr (Some False)"
    by (simp add: demoFrame_def demoDecode_false)
  have m: "json_Marshal demoEncode (fst (demoHandler (Some False))) = Inl ''json: unsupported value''"
    by (simp add: json_Marshal_def)
  have f: "snd (demoHandler (Some False)) \<noteq> None \<or>
     (snd (demoHandler (Some False)) = None \<and>
      (\<exists>err. json_Marshal demoEncode (fst (demoHandler (Some False))) = Inl err))"
    using m by simp
  have l: "loop demoDecode demoHandler demoEncode [(Inl ''EOF'', None)] =
      ([], OsExit ''Failed to read message: EOF'')"
    by (simp add: iteration_read_error)
  show ?thesis
    using handler_or_marshal_error_gives_failure_frame
      [where handler = demoHandler and enc = demoEncode and wr = None
         and rest = "[(Inl ''EOF'', None)]", OF d f] d m
    by (simp add: l del: loop.simps)
qed

text \<open>
  Claim C3. For a frame whose inner payload was decoded: when the handler returns
  no error and its result marshals, the outbound frame has type
  \<^verbatim>\<open>SkillResponseSuccessMessage\<close> and carries the marshalled result; and the frame
  has type \<^verbatim>\<open>SkillResponseFailureMessage\<close> exactly when the handler returned an
  error or, the handler having returned none, marshalling its result failed.
\<close>

theorem success_frame_carries_marshalled_result:
  assumes decoded: "json_Unmarshal dec (RequestPayload req) = Inr reqEnv"
  shows "\<exists>resp. written (fst (iteration dec handler enc (Inr (Some req)) wr)) = [resp] \<and>
           (\<forall>r rb. handler reqEnv = (r, None) \<and> json_Marshal enc r = Inr rb \<longrightarrow>
                    respType resp = skillResponseTypeSuccess \<and> ResponsePayload resp = rb) \<and>
           (respType resp = skillResponseTypeFailure \<longleftrightarrow>
              snd (handler reqEnv) \<noteq> None \<or>
              (snd (handler reqEnv) = None \<and>
               (\<exists>err. json_Marshal enc (fst (handler reqEnv)) = Inl err)))"
proof -
  let ?resp = "respond handler enc req reqEnv"
  have w: "written (fst (iteration dec handler enc (Inr (Some req)) wr)) = [?resp]"
    by (simp add: iteration_decoded [OF decoded])
  have ok: "respType ?resp = skillResponseTypeSuccess \<and> ResponsePayload ?resp = rb"
    if "handler reqEnv = (r, None) \<and> json_Marshal enc r = Inr rb" for r rb
    using that by (simp add: respond_success)
  obtain r e where h: "handler reqEnv = (r, e)" by (cases "handler reqEnv")
  have iff: "respType ?resp = skillResponseTypeFailure \<longleftrightarrow>
      snd (handler reqEnv) \<noteq> None \<or>
      (snd (handler reqEnv) = None \<and> (\<exists>err. json_Marshal enc (fst (handler reqEnv)) = Inl err))"
  proof (cases e)
    case (Some err)
    with h show ?thesis by (simp add: respond_handler_error)
  next
    case None
    show ?thesis
    proof (cases "json_Marshal enc r")
      case (Inl err)
      with h None show ?thesis by (simp add: respond_marshal_error)
    next
      case (Inr rb)
      with h None show ?thesis by (simp add: respond_success types_differ)
    qed
  qed
  from w ok iff show ?thesis by blast
qed

text \<open>On \<open>demoFrame ''true''\<close> the handler answers \<^verbatim>\<open>false\<close>, which is the payload sent.\<close>

theorem success_frame_carries_marshalled_result_witness:
  "json_Unmarshal demoDecode (RequestPayload (demoFrame ''true'')) = Inr (Some True) \<and>
   demoHandler (Some True) = (Some (Flag False), None) \<and>
   json_Marshal demoEncode (Some (Flag False)) = Inr ''false'' \<and>
   written (fst (iteration demoDecode demoHandler demoEncode (Inr (Some (demoFrame ''true''))) None)) =
     [\<lparr>respVersion = ''1.0'', respType = ''SkillResponseSuccessMessage'',
       OriginalRequestID = ''abc'', ResponsePayload = ''false''\<rparr>]"
proof -
  have d: "json_Unmarshal demoDecode (RequestPayload (demoFrame ''true'')) = Inr (Some True)"
    by (simp add: demoFrame_def demoDecode_true)
  have m: "json_Marshal demoEncode (Some (Flag False)) = Inr ''false''"
    by (simp add: json_Marshal_def)
  from success_frame_carries_marshalled_result
    [where handler = demoHandler and enc = demoEncode and wr = None, OF d]
  obtain resp where
    w: "written (fst (iteration demoDecode demoHandler demoEncode
          (Inr (Some (demoFrame ''true''))) None)) = [resp]" and
    s: "\<forall>r rb. demoHandler (Some True) = (r, None) \<and> json_Marshal demoEncode r = Inr rb \<longrightarrow>
          respType resp = skillResponseTypeSuccess \<and> ResponsePayload resp = rb"
    by blast
  from s m have "respType resp = skillResponseTypeSuccess \<and> ResponsePayload resp = ''false''"
    by simp
  moreover from w have "resp = respond demoHandler demoEncode (demoFrame ''true'') (Some True)"
    by (simp add: iteration_decoded [OF d])
  then have "respVersion resp = ''1.0'' \<and> OriginalRequestID resp = ''abc''"
    by (simp add: respond_echo demoFrame_def)
  ultimately have "resp = \<lparr>respVersion = ''1.0'', respType = ''SkillResponseSuccessMessage'',
       OriginalRequestID = ''abc'', ResponsePayload = ''false''\<rparr>"
    by (cases resp) (simp add: skillResponseTypeSuccess_def)
  with w d m show ?thesis by simp
qed

subsection \<open>How a pass and a session end\<close>

lemma debug_dialed:
  "trace (debug accessToken skillId region handler dec enc \<lparr>dialError = None, frames = s\<rparr>) =
     fst (loop dec handler enc s) @
       (if snd (loop dec handler enc s) = Panicked then [Closed, Cancelled] else [])"
  "ending (debug accessToken skillId region handler dec enc \<lparr>dialError = None, frames = s\<rparr>) =
     snd (loop dec handler enc s)"
  by (simp_all add: debug_def Let_def split: prod.splits)

lemma loop_read_error:
  "loop dec handler enc ((Inl err, wr) # rest) = ([], OsExit (''Failed to read message: '' @ err))"
  by (simp add: iteration_read_error)

lemma loop_undecoded:
  "json_Unmarshal dec (RequestPayload req) = Inl err \<Longrightarrow>
   loop dec handler enc ((Inr (Some req), wr) # rest) =
     ([], OsExit (''Failed to unmarshal request payload: '' @ err))"
  by (simp add: iteration_undecoded)

lemma loop_write_error:
  "json_Unmarshal dec (RequestPayload req) = Inr reqEnv \<Longrightarrow>
   loop dec handler enc ((Inr (Some req), Some err) # rest) =
     ([Handled reqEnv, Wrote (respond handler enc req reqEnv)],
      OsExit (''Failed to write response: '' @ err))"
  by (simp add: iteration_decoded)

lemma loop_written:
  "json_Unmarshal dec (RequestPayload req) = Inr reqEnv \<Longrightarrow>
   loop dec handler enc ((Inr (Some req), None) # rest) =
     (Handled reqEnv # Wrote (respond handler enc req reqEnv) # fst (loop dec handler enc rest),
      snd (loop dec handler enc rest))"
  by (simp add: iteration_decoded split: prod.splits)

text \<open>
  Claim C4 says that every failure inside the pipeline of one frame, a decode
  failure of \<^verbatim>\<open>requestPayload\<close> included, becomes a Failure frame and leaves the
  session running. The code ends the process on that decode failure (lines
  112--115, \<^verbatim>\<open>log.Fatal\<close>). A frame with an empty \<^verbatim>\<open>requestPayload\<close> (the field
  absent from the frame, say) shows it with any decoder: nothing is written,
  the process exits, and the frame after it is never handled.
\<close>

theorem inner_decode_failure_is_fatal_counterexample:
  "json_Unmarshal demoDecode (RequestPayload (demoFrame [])) =
     Inl ''unexpected end of JSON input'' \<and>
   trace (debug ''token'' ''skill'' ''NA'' demoHandler demoDecode demoEncode
     \<lparr>dialError = None,
      frames = [(Inr (Some (demoFrame [])), None), (Inr (Some (demoFrame ''true'')), None)]\<rparr>) = [] \<and>
   ending (debug ''token'' ''skill'' ''NA'' demoHandler demoDecode demoEncode
     \<lparr>dialError = None,
      frames = [(Inr (Some (demoFrame [])), None), (Inr (Some (demoFrame ''true'')), None)]\<rparr>) =
     OsExit ''Failed to unmarshal request payload: unexpected end of JSON input''"
proof -
  have d: "json_Unmarshal demoDecode (RequestPayload (demoFrame [])) =
      Inl ''unexpected end of JSON input''"
    by (simp add: demoFrame_def json_Unmarshal_empty)
  show ?thesis
    by (simp add: d debug_dialed loop_undecoded [OF d] del: loop.simps)
qed

text \<open>
  Claim C4, amended. A decode failure of the inner payload ends the session with
  \<^verbatim>\<open>log.Fatal\<close> and no frame is written for it, whatever the script holds next.
  The failures that are answered in band are the two after it: a handler error
  and a marshalling error give a Failure frame with an empty payload, and after
  its write the loop goes on with the next read.
\<close>

theorem only_handler_and_marshal_errors_are_in_band:
  "(json_Unmarshal dec (RequestPayload req) = Inl err \<longrightarrow>
      loop dec handler enc ((Inr (Some req), wr) # rest) =
        ([], OsExit (''Failed to unmarshal request payload: '' @ err))) \<and>
   (json_Unmarshal dec (RequestPayload req) = Inr reqEnv \<and>
    (snd (handler reqEnv) \<noteq> None \<or>
     (snd (handler reqEnv) = None \<and>
      (\<exists>e. json_Marshal enc (fst (handler reqEnv)) = Inl e))) \<longrightarrow>
      (\<exists>resp. respType resp = skillResponseTypeFailure \<and> ResponsePayload resp = [] \<and>
         loop dec handler enc ((Inr (Some req), None) # rest) =
           (Handled reqEnv # Wrote resp # fst (loop dec handler enc rest),
            snd (loop dec handler enc rest))))"
proof (intro conjI impI)
  assume "json_Unmarshal dec (RequestPayload req) = Inl err"
  then show "loop dec handler enc ((Inr (Some req), wr) # rest) =
      ([], OsExit (''Failed to unmarshal request payload: '' @ err))"
    by (rule loop_undecoded)
next
  assume a: "json_Unmarshal dec (RequestPayload req) = Inr reqEnv \<and>
    (snd (handler reqEnv) \<noteq> None \<or>
     (snd (handler reqEnv) = None \<and>
      (\<exists>e. json_Marshal enc (fst (handler reqEnv)) = Inl e)))"
  let ?resp = "respond handler enc req reqEnv"
  obtain r e where h: "handler reqEnv = (r, e)" by (cases "handler reqEnv")
  have "respType ?resp = skillResponseTypeFailure \<and> ResponsePayload ?resp = []"
  proof (cases e)
    case (Some x)
    with h show ?thesis by (simp add: respond_handler_error)
  next
    case None
    with h a obtain x where "json_Marshal enc r = Inl x" by auto
    with h None show ?thesis by (simp add: respond_marshal_error)
  qed
  moreover from a have "loop dec handler enc ((Inr (Some req), None) # rest) =
      (Handled reqEnv # Wrote ?resp # fst (loop dec handler enc rest),
       snd (loop dec handler enc rest))"
    by (simp add: loop_written del: loop.simps)
  ultimately show "\<exists>resp. respType resp = skillResponseTypeFailure \<and> ResponsePayload resp = [] \<and>
         loop dec handler enc ((Inr (Some req), None) # rest) =
           (Handled reqEnv # Wrote resp # fst (loop dec handler enc rest),
            snd (loop dec handler enc rest))"
    by blast
qed

text \<open>
  Both halves on the small instance: the empty payload is fatal; the payload
  \<^verbatim>\<open>null\<close> reaches the handler, which fails, and the session is left waiting
  for the next frame.
\<close>

theorem only_handler_and_marshal_errors_are_in_band_witness:
  "json_Unmarshal demoDecode (RequestPayload (demoFrame [])) =
     Inl ''unexpected end of JSON input'' \<and>
   loop demoDecode demoHandler demoEncode [(Inr (Some (demoFrame [])), None)] =
     ([], OsExit ''Failed to unmarshal request payload: unexpected end of JSON input'') \<and>
   json_Unmarshal demoDecode (RequestPayload (demoFrame ''null'')) = Inr None \<and>
   snd (demoHandler None) = Some ''no request'' \<and>
   (\<exists>resp. respType resp = skillResponseTypeFailure \<and> ResponsePayload resp = [] \<and>
      loop demoDecode demoHandler demoEncode [(Inr (Some (demoFrame ''null'')), None)] =
        ([Handled None, Wrote resp], Waiting))"
proof -
  have d1: "json_Unmarshal demoDecode (RequestPayload (demoFrame [])) =
      Inl ''unexpected end of JSON input''"
    by (simp add: demoFrame_def json_Unmarshal_empty)
  have d2: "json_Unmarshal demoDecode (RequestPayload (demoFrame ''null'')) = Inr None"
    by (simp add: demoFrame_def json_Unmarshal_null)
  have h: "snd (demoHandler None) = Some ''no request''" by simp
  from only_handler_and_marshal_errors_are_in_band
    [where dec = demoDecode and handler = demoHandler and enc = demoEncode
       and req = "demoFrame []" and err = "''unexpected end of JSON input''"
       and wr = None and rest = "[]"] d1
  have a: "loop demoDecode demoHandler demoEncode [(Inr (Some (demoFrame [])), None)] =
     ([], OsExit ''Failed to unmarshal request payload: unexpected end of JSON input'')"
    by (simp del: loop.simps)
  from only_handler_and_marshal_errors_are_in_band
    [where dec = demoDecode and handler = demoHandler and enc = demoEncode
       and req = "demoFrame ''null''" and reqEnv = None and rest = "[]"] d2 h
  have b: "\<exists>resp. respType resp = skillResponseTypeFailure \<and> ResponsePayload resp = [] \<and>
      loop demoDecode demoHandler demoEncode [(Inr (Some (demoFrame ''null'')), None)] =
        ([Handled None, Wrote resp], Waiting)"
    by (simp del: loop.simps) simp
  from d1 a d2 h b show ?thesis by blast
qed

subsection \<open>Closing the transport handle\<close>

text \<open>
  No pass of the loop closes the handle; the only close of the function is the
  deferred one, so the handle is closed once when the session panics and not at
  all when it ends in \<^verbatim>\<open>log.Fatal\<close>.
\<close>

lemma closes_append: "closes (xs @ ys) = closes xs + closes ys"
  by (simp add: closes_def)

lemma closes_iteration: "closes (fst (iteration dec handler enc rd wr)) = 0"
  by (simp add: iteration_def closes_def split: sum.splits option.splits)

lemma closes_loop: "closes (fst (loop dec handler enc s)) = 0"
proof (induction s)
  case Nil
  then show ?case by (simp add: closes_def)
next
  case (Cons p s)
  obtain rd wr where p: "p = (rd, wr)" by (cases p)
  from closes_iteration [of dec handler enc rd wr] Cons p show ?case
    by (auto simp: closes_append split: prod.splits option.splits)
qed

lemma closes_debug:
  "closes (trace (debug accessToken skillId region handler dec enc tr)) =
     (if ending (debug accessToken skillId region handler dec enc tr) = Panicked then 1 else 0)"
proof (cases "dialError tr")
  case None
  with closes_loop [of dec handler enc "frames tr"] show ?thesis
    by (auto simp: debug_def Let_def closes_append split: prod.splits) (simp_all add: closes_def)
next
  case (Some err)
  then show ?thesis by (simp add: debug_def Let_def closes_def)
qed

text \<open>
  The one path on which the deferred close runs: a frame that is the JSON
  literal \<^verbatim>\<open>null\<close> leaves \<^verbatim>\<open>req\<close> \<^verbatim>\<open>nil\<close>, and line 112 dereferences it.
\<close>

lemma nil_frame_panics:
  "trace (debug accessToken skillId region handler dec enc
     \<lparr>dialError = None, frames = (Inr None, wr) # rest\<rparr>) = [Closed, Cancelled] \<and>
   ending (debug accessToken skillId region handler dec enc
     \<lparr>dialError = None, frames = (Inr None, wr) # rest\<rparr>) = Panicked"
  by (simp add: debug_dialed iteration_def)

text \<open>
  Claim C5 says the handle is closed exactly once on every exit path, a read
  failure in the middle of the loop included. \<^verbatim>\<open>debug\<close> registers
  \<^verbatim>\<open>defer c.Close(websocket.StatusNormalClosure, "bye")\<close> (line 94) and then leaves
  through \<^verbatim>\<open>log.Fatal\<close> (lines 105--107), which exits the process without running
  deferred calls. Evaluated on a session whose second read fails: the first frame
  is answered, the process exits, no later frame is handled, and the number of
  closes is 0.
\<close>

theorem read_failure_exits_without_close:
  "ending (debug ''token'' ''skill'' ''NA'' demoHandler demoDecode demoEncode
     \<lparr>dialError = None,
      frames = [(Inr (Some (demoFrame ''true'')), None), (Inl ''EOF'', None)]\<rparr>) =
     OsExit ''Failed to read message: EOF'' \<and>
   trace (debug ''token'' ''skill'' ''NA'' demoHandler demoDecode demoEncode
     \<lparr>dialError = None,
      frames = [(Inr (Some (demoFrame ''true'')), None), (Inl ''EOF'', None)]\<rparr>) =
     [Handled (Some True),
      Wrote \<lparr>respVersion = ''1.0'', respType = ''SkillResponseSuccessMessage'',
             OriginalRequestID = ''abc'', ResponsePayload = ''false''\<rparr>] \<and>
   closes (trace (debug ''token'' ''skill'' ''NA'' demoHandler demoDecode demoEncode
     \<lparr>dialError = None,
      frames = [(Inr (Some (demoFrame ''true'')), None), (Inl ''EOF'', None)]\<rparr>)) = 0"
proof -
  have d: "json_Unmarshal demoDecode (RequestPayload (demoFrame ''true'')) = Inr (Some True)"
    by (simp add: demoFrame_def demoDecode_true)
  have r: "respond demoHandler demoEncode (demoFrame ''true'') (Some True) =
      \<lparr>respVersion = ''1.0'', respType = ''SkillResponseSuccessMessage'',
       OriginalRequestID = ''abc'', ResponsePayload = ''false''\<rparr>"
    by (simp add: respond_def json_Marshal_def demoFrame_def skillResponseTypeSuccess_def)
  have l: "loop demoDecode demoHandler demoEncode
      [(Inr (Some (demoFrame ''true'')), None), (Inl ''EOF'', None)] =
      ([Handled (Some True),
        Wrote \<lparr>respVersion = ''1.0'', respType = ''SkillResponseSuccessMessage'',
               OriginalRequestID = ''abc'', ResponsePayload = ''false''\<rparr>],
       OsExit ''Failed to read message: EOF'')"
    by (simp add: loop_written [OF d] loop_read_error r del: loop.simps)
  show ?thesis
    by (simp add: debug_dialed l closes_def del: loop.simps)
qed

subsection \<open>Transport failures\<close>

text \<open>
  Claim C6. After any passes that completed (the loop was about to read again), a
  failed \<^verbatim>\<open>wsjson.Read\<close> ends the process with \<^verbatim>\<open>log.Fatal\<close>, and so does a
  failed \<^verbatim>\<open>wsjson.Write\<close> of the response to a decoded frame. In both cases the
  events are those up to the failure and nothing of \<open>rest\<close>, the frames that
  would have followed: there is no retry and no later read.
\<close>

theorem transport_failure_ends_session:
  assumes "snd (loop dec handler enc pre) = Waiting"
  shows "trace (debug accessToken skillId region handler dec enc
           \<lparr>dialError = None, frames = pre @ (Inl err, wr) # rest\<rparr>) =
           fst (loop dec handler enc pre) \<and>
         ending (debug accessToken skillId region handler dec enc
           \<lparr>dialError = None, frames = pre @ (Inl err, wr) # rest\<rparr>) =
           OsExit (''Failed to read message: '' @ err) \<and>
         (json_Unmarshal dec (RequestPayload req) = Inr reqEnv \<longrightarrow>
            trace (debug accessToken skillId region handler dec enc
              \<lparr>dialError = None, frames = pre @ (Inr (Some req), Some err) # rest\<rparr>) =
              fst (loop dec handler enc pre) @
                [Handled reqEnv, Wrote (respond handler enc req reqEnv)] \<and>
            ending (debug accessToken skillId region handler dec enc
              \<lparr>dialError = None, frames = pre @ (Inr (Some req), Some err) # rest\<rparr>) =
              OsExit (''Failed to write response: '' @ err))"
  using assms
  by (simp add: debug_dialed loop_append loop_read_error loop_write_error del: loop.simps)

text \<open>After one completed pass, a read error and a write error on the small instance.\<close>

theorem transport_failure_ends_session_witness:
  "snd (loop demoDecode demoHandler demoEncode [(Inr (Some (demoFrame ''null'')), None)]) = Waiting \<and>
   ending (debug ''token'' ''skill'' ''NA'' demoHandler demoDecode demoEncode
     \<lparr>dialError = None,
      frames = [(Inr (Some (demoFrame ''null'')), None), (Inl ''EOF'', None),
                (Inr (Some (demoFrame ''true'')), None)]\<rparr>) =
     OsExit ''Failed to read message: EOF'' \<and>
   json_Unmarshal demoDecode (RequestPayload (demoFrame ''true'')) = Inr (Some True) \<and>
   ending (debug ''token'' ''skill'' ''NA'' demoHandler demoDecode demoEncode
     \<lparr>dialError = None,
      frames = [(Inr (Some (demoFrame ''null'')), None),
                (Inr (Some (demoFrame ''true'')), Some ''broken pipe''),
                (Inr (Some (demoFrame ''true'')), None)]\<rparr>) =
     OsExit ''Failed to write response: broken pipe''"
proof -
  have d0: "json_Unmarshal demoDecode (RequestPayload (demoFrame ''null'')) = Inr None"
    by (simp add: demoFrame_def json_Unmarshal_null)
  have d: "json_Unmarshal demoDecode (RequestPayload (demoFrame ''true'')) = Inr (Some True)"
    by (simp add: demoFrame_def demoDecode_true)
  have w: "snd (loop demoDecode demoHandler demoEncode
      [(Inr (Some (demoFrame ''null'')), None)]) = Waiting"
    by (simp add: loop_written [OF d0] del: loop.simps) simp
  from transport_failure_ends_session
    [where accessToken = "''token''" and skillId = "''skill''" and region = "''NA''"
       and err = "''EOF''" and wr = None and req = "demoFrame ''true''" and reqEnv = "Some True"
       and rest = "[(Inr (Some (demoFrame ''true'')), None)]", OF w]
  have a: "ending (debug ''token'' ''skill'' ''NA'' demoHandler demoDecode demoEncode
     \<lparr>dialError = None,
      frames = [(Inr (Some (demoFrame ''null'')), None), (Inl ''EOF'', None),
                (Inr (Some (demoFrame ''true'')), None)]\<rparr>) =
     OsExit ''Failed to read message: EOF''"
    by simp
  from transport_failure_ends_session
    [where accessToken = "''token''" and skillId = "''skill''" and region = "''NA''"
       and err = "''broken pipe''" and wr = None and req = "demoFrame ''true''"
       and reqEnv = "Some True"
       and rest = "[(Inr (Some (demoFrame ''true'')), None)]", OF w] d
  have b: "ending (debug ''token'' ''skill'' ''NA'' demoHandler demoDecode demoEncode
     \<lparr>dialError = None,
      frames = [(Inr (Some (demoFrame ''null'')), None),
                (Inr (Some (demoFrame ''true'')), Some ''broken pipe''),
                (Inr (Some (demoFrame ''true'')), None)]\<rparr>) =
     OsExit ''Failed to write response: broken pipe''"
    by simp
  from w a d b show ?thesis by blast
qed

subsection \<open>The region table and the relay URL\<close>

lemma debugEndpointURL_eq:
  "debugEndpointURL region skillId =
     ''wss://'' @ index regionEndpoints region @ ''/v1/skills/'' @ skillId @
     ''/stages/development/connectCustomDebugEndpoint''"
  by (simp add: debugEndpointURL_def)

text \<open>
  Claim C7. Reading the region table at \<^verbatim>\<open>NA\<close>, \<^verbatim>\<open>FE\<close> and \<^verbatim>\<open>EU\<close> gives the three
  fixed host names, which are pairwise distinct; at any other code the read
  gives the empty string, and it never fails.
\<close>

theorem region_lookup:
  "index regionEndpoints ''NA'' = ''bob-dispatch-prod-na.amazon.com'' \<and>
   index regionEndpoints ''FE'' = ''bob-dispatch-prod-fe.amazon.com'' \<and>
   index regionEndpoints ''EU'' = ''bob-dispatch-prod-eu.amazon.com'' \<and>
   distinct [index regionEndpoints ''NA'', index regionEndpoints ''FE'',
             index regionEndpoints ''EU''] \<and>
   (code \<notin> {''NA'', ''FE'', ''EU''} \<longrightarrow> index regionEndpoints code = [])"
  by (simp add: index_def regionEndpoints_def)

text \<open>The code \<^verbatim>\<open>zz\<close> is not in the table and resolves to the empty string.\<close>

theorem region_lookup_witness:
  "''zz'' \<notin> {''NA'', ''FE'', ''EU''} \<and> index regionEndpoints ''zz'' = []"
  using region_lookup [of "''zz''"] by simp

text \<open>
  Claim C8. Whatever the region code and the skill id, the URL that \<^verbatim>\<open>debug\<close>
  hands to \<^verbatim>\<open>websocket.Dial\<close> is \<^verbatim>\<open>wss://\<close>, the host name the table gives for the
  region, \<^verbatim>\<open>/v1/skills/\<close>, the skill id, and
  \<^verbatim>\<open>/stages/development/connectCustomDebugEndpoint\<close>.
\<close>

theorem relay_url:
  "dialedURL (debug accessToken skillId region handler dec enc tr) =
     ''wss://'' @ index regionEndpoints region @ ''/v1/skills/'' @ skillId @
     ''/stages/development/connectCustomDebugEndpoint''"
  by (simp add: debug_def Let_def debugEndpointURL_eq split: option.splits prod.splits)

text \<open>For the region \<^verbatim>\<open>EU\<close>, and for an unknown region, where the host name is empty.\<close>

theorem relay_url_witness:
  "dialedURL (debug ''token'' ''amzn1.ask.skill.1'' ''EU'' demoHandler demoDecode demoEncode
     \<lparr>dialError = None, frames = []\<rparr>) =
     ''wss://bob-dispatch-prod-eu.amazon.com/v1/skills/amzn1.ask.skill.1/stages/development/connectCustomDebugEndpoint'' \<and>
   dialedURL (debug ''token'' ''amzn1.ask.skill.1'' ''zz'' demoHandler demoDecode demoEncode
     \<lparr>dialError = Some ''bad handshake'', frames = []\<rparr>) =
     ''wss:///v1/skills/amzn1.ask.skill.1/stages/development/connectCustomDebugEndpoint''"
  using relay_url [of "''token''" "''amzn1.ask.skill.1''" "''EU''" demoHandler demoDecode demoEncode
      "\<lparr>dialError = None, frames = []\<rparr>"]
    relay_url [of "''token''" "''amzn1.ask.skill.1''" "''zz''" demoHandler demoDecode demoEncode
      "\<lparr>dialError = Some ''bad handshake'', frames = []\<rparr>"]
  by (simp add: index_def regionEndpoints_def)

subsection \<open>What the bridge reads of an inbound frame\<close>

text \<open>
  Claim C9. Two sessions whose transports behave alike, frame by frame, except
  that the frames read may differ in their \<^verbatim>\<open>type\<close> field, are the same session:
  the same frames are written in the same order, and the session ends the same
  way.
\<close>

theorem inbound_type_is_ignored:
  assumes "list_all2 (rel_prod (rel_sum (=) (rel_option only_type_differs)) (=)) s1 s2"
  shows "debug accessToken skillId region handler dec enc \<lparr>dialError = d, frames = s1\<rparr> =
         debug accessToken skillId region handler dec enc \<lparr>dialError = d, frames = s2\<rparr>"
  by (cases d) (simp_all add: debug_def Let_def loop_retype [OF assms])

text \<open>Two frames that differ in \<^verbatim>\<open>type\<close> only, each the single frame of a session.\<close>

theorem inbound_type_is_ignored_witness:
  "list_all2 (rel_prod (rel_sum (=) (rel_option only_type_differs)) (=))
     [(Inr (Some (demoFrame ''true'')), None)]
     [(Inr (Some ((demoFrame ''true'')\<lparr>reqType := ''SkillRequestMessage''\<rparr>)), None)] \<and>
   reqType (demoFrame ''true'') \<noteq> ''SkillRequestMessage'' \<and>
   debug ''token'' ''skill'' ''NA'' demoHandler demoDecode demoEncode
     \<lparr>dialError = None, frames = [(Inr (Some (demoFrame ''true'')), None)]\<rparr> =
   debug ''token'' ''skill'' ''NA'' demoHandler demoDecode demoEncode
     \<lparr>dialError = None,
      frames = [(Inr (Some ((demoFrame ''true'')\<lparr>reqType := ''SkillRequestMessage''\<rparr>)), None)]\<rparr>"
proof -
  have r: "list_all2 (rel_prod (rel_sum (=) (rel_option only_type_differs)) (=))
     [(Inr (Some (demoFrame ''true'')), None)]
     [(Inr (Some ((demoFrame ''true'')\<lparr>reqType := ''SkillRequestMessage''\<rparr>)), None)]"
    by (simp add: only_type_differs_def)
  have t: "reqType (demoFrame ''true'') \<noteq> ''SkillRequestMessage''"
    by (simp add: demoFrame_def)
  from r t inbound_type_is_ignored
    [where accessToken = "''token''" and skillId = "''skill''" and region = "''NA''"
       and handler = demoHandler and dec = demoDecode and enc = demoEncode and d = None, OF r]
  show ?thesis by blast
qed

text \<open>
  Claim C10. The inner decode ends the pass only on malformed data: on a payload
  that is empty up to white space, or one that is not the literal \<^verbatim>\<open>null\<close> and
  that the decoder of \<^verbatim>\<open>RequestEnvelope\<close> rejects. A frame whose
  \<^verbatim>\<open>requestPayload\<close> is the JSON literal \<^verbatim>\<open>null\<close> is decoded without error to a
  \<^verbatim>\<open>nil\<close> request pointer, and the handler is called with \<^verbatim>\<open>nil\<close>: the frame
  written is the one that the handler's answer to \<^verbatim>\<open>nil\<close> determines, Failure
  when that answer is an error or cannot be marshalled, and otherwise Success
  with the marshalled answer.
\<close>

theorem null_payload_reaches_handler:
  assumes "RequestPayload req = ''null''"
  shows "json_Unmarshal dec (RequestPayload req) = Inr None \<and>
         iteration dec handler enc (Inr (Some req)) wr =
           ([Handled None,
             Wrote (case handler None of
                      (r, Some herr) \<Rightarrow>
                        \<lparr>respVersion = reqVersion req, respType = skillResponseTypeFailure,
                         OriginalRequestID = RequestID req, ResponsePayload = []\<rparr>
                    | (r, None) \<Rightarrow>
                        (case json_Marshal enc r of
                           Inl merr \<Rightarrow>
                             \<lparr>respVersion = reqVersion req, respType = skillResponseTypeFailure,
                              OriginalRequestID = RequestID req, ResponsePayload = []\<rparr>
                         | Inr rb \<Rightarrow>
                             \<lparr>respVersion = reqVersion req, respType = skillResponseTypeSuccess,
                              OriginalRequestID = RequestID req, ResponsePayload = rb\<rparr>))],
            case wr of Some err \<Rightarrow> Some (OsExit (''Failed to write response: '' @ err))
                     | None \<Rightarrow> None) \<and>
         ((\<exists>err. iteration dec handler enc (Inr (Some frame)) wr =
                   ([], Some (OsExit (''Failed to unmarshal request payload: '' @ err)))) \<longleftrightarrow>
            json_trim (RequestPayload frame) = [] \<or>
            (json_trim (RequestPayload frame) \<noteq> ''null'' \<and>
             (\<exists>err. dec (RequestPayload frame) = Inl err)))"
proof (intro conjI)
  from assms show d: "json_Unmarshal dec (RequestPayload req) = Inr None"
    by (simp add: json_Unmarshal_null)
  obtain r e where h: "handler None = (r, e)" by (cases "handler None")
  have "respond handler enc req None =
      (case handler None of
         (r, Some herr) \<Rightarrow>
           \<lparr>respVersion = reqVersion req, respType = skillResponseTypeFailure,
            OriginalRequestID = RequestID req, ResponsePayload = []\<rparr>
       | (r, None) \<Rightarrow>
           (case json_Marshal enc r of
              Inl merr \<Rightarrow>
                \<lparr>respVersion = reqVersion req, respType = skillResponseTypeFailure,
                 OriginalRequestID = RequestID req, ResponsePayload = []\<rparr>
            | Inr rb \<Rightarrow>
                \<lparr>respVersion = reqVersion req, respType = skillResponseTypeSuccess,
                 OriginalRequestID = RequestID req, ResponsePayload = rb\<rparr>))"
    by (simp add: respond_def Let_def h split: option.splits sum.splits)
  with iteration_decoded [OF d, of handler enc wr]
  show "iteration dec handler enc (Inr (Some req)) wr =
           ([Handled None,
             Wrote (case handler None of
                      (r, Some herr) \<Rightarrow>
                        \<lparr>respVersion = reqVersion req, respType = skillResponseTypeFailure,
                         OriginalRequestID = RequestID req, ResponsePayload = []\<rparr>
                    | (r, None) \<Rightarrow>
                        (case json_Marshal enc r of
                           Inl merr \<Rightarrow>
                             \<lparr>respVersion = reqVersion req, respType = skillResponseTypeFailure,
                              OriginalRequestID = RequestID req, ResponsePayload = []\<rparr>
                         | Inr rb \<Rightarrow>
                             \<lparr>respVersion = reqVersion req, respType = skillResponseTypeSuccess,
                              OriginalRequestID = RequestID req, ResponsePayload = rb\<rparr>))],
            case wr of Some err \<Rightarrow> Some (OsExit (''Failed to write response: '' @ err))
                     | None \<Rightarrow> None)"
    by simp
next
  let ?p = "RequestPayload frame"
  have fatal: "(\<exists>err. iteration dec handler enc (Inr (Some frame)) wr =
                   ([], Some (OsExit (''Failed to unmarshal request payload: '' @ err)))) \<longleftrightarrow>
      (\<exists>err. json_Unmarshal dec ?p = Inl err)"
    by (cases "json_Unmarshal dec ?p") (simp_all add: iteration_def)
  have "(\<exists>err. json_Unmarshal dec ?p = Inl err) \<longleftrightarrow>
      json_trim ?p = [] \<or> (json_trim ?p \<noteq> ''null'' \<and> (\<exists>err. dec ?p = Inl err))"
    by (cases "dec ?p") (simp_all add: json_Unmarshal_def Let_def)
  with fatal show "(\<exists>err. iteration dec handler enc (Inr (Some frame)) wr =
                   ([], Some (OsExit (''Failed to unmarshal request payload: '' @ err)))) \<longleftrightarrow>
      json_trim ?p = [] \<or> (json_trim ?p \<noteq> ''null'' \<and> (\<exists>err. dec ?p = Inl err))"
    by simp
qed

text \<open>
  On the small instance: the handler that accepts \<^verbatim>\<open>nil\<close> gives a Success frame
  carrying its answer, the handler that rejects \<^verbatim>\<open>nil\<close> gives a Failure frame,
  and the malformed payload \<^verbatim>\<open>tru\<close> ends the pass at the inner decode.
\<close>

theorem null_payload_reaches_handler_witness:
  "RequestPayload (demoFrame ''null'') = ''null'' \<and>
   json_Unmarshal demoDecode (RequestPayload (demoFrame ''null'')) = Inr None \<and>
   iteration demoDecode demoNilHandler demoEncode (Inr (Some (demoFrame ''null''))) None =
     ([Handled None,
       Wrote \<lparr>respVersion = ''1.0'', respType = ''SkillResponseSuccessMessage'',
              OriginalRequestID = ''abc'', ResponsePayload = ''true''\<rparr>], None) \<and>
   iteration demoDecode demoHandler demoEncode (Inr (Some (demoFrame ''null''))) None =
     ([Handled None,
       Wrote \<lparr>respVersion = ''1.0'', respType = ''SkillResponseFailureMessage'',
              OriginalRequestID = ''abc'', ResponsePayload = []\<rparr>], None) \<and>
   json_trim (RequestPayload (demoFrame ''tru'')) = ''tru'' \<and>
   (\<exists>err. demoDecode (RequestPayload (demoFrame ''tru'')) = Inl err) \<and>
   (\<exists>err. iteration demoDecode demoHandler demoEncode (Inr (Some (demoFrame ''tru''))) None =
      ([], Some (OsExit (''Failed to unmarshal request payload: '' @ err))))"
proof -
  have p: "RequestPayload (demoFrame ''null'') = ''null''"
    by (simp add: demoFrame_def)
  have t: "json_trim (RequestPayload (demoFrame ''tru'')) = ''tru''"
    by (simp add: demoFrame_def json_trim_def json_space_def)
  have e: "\<exists>err. demoDecode (RequestPayload (demoFrame ''tru'')) = Inl err"
    using t by (simp add: demoDecode_def)
  note a = null_payload_reaches_handler
    [OF p, where dec = demoDecode and handler = demoNilHandler and enc = demoEncode
       and wr = None and frame = "demoFrame ''tru''"]
  note b = null_payload_reaches_handler
    [OF p, where dec = demoDecode and handler = demoHandler and enc = demoEncode
       and wr = None and frame = "demoFrame ''tru''"]
  from a have a1: "iteration demoDecode demoNilHandler demoEncode
      (Inr (Some (demoFrame ''null''))) None =
     ([Handled None,
       Wrote \<lparr>respVersion = ''1.0'', respType = ''SkillResponseSuccessMessage'',
              OriginalRequestID = ''abc'', ResponsePayload = ''true''\<rparr>], None)"
    by (simp add: json_Marshal_def demoFrame_def skillResponseTypeSuccess_def)
  from b have b1: "iteration demoDecode demoHandler demoEncode
      (Inr (Some (demoFrame ''null''))) None =
     ([Handled None,
       Wrote \<lparr>respVersion = ''1.0'', respType = ''SkillResponseFailureMessage'',
              OriginalRequestID = ''abc'', ResponsePayload = []\<rparr>], None)"
    by (simp add: demoFrame_def skillResponseTypeFailure_def)
  from b have b2: "json_Unmarshal demoDecode (RequestPayload (demoFrame ''null'')) = Inr None"
    by simp
  from b t e have b3: "\<exists>err. iteration demoDecode demoHandler demoEncode
      (Inr (Some (demoFrame ''tru''))) None =
      ([], Some (OsExit (''Failed to unmarshal request payload: '' @ err)))"
    by simp
  from p b2 a1 b1 t e b3 show ?thesis by blast
qed

end
